theory Spec2Isabelle
  imports Main "HOL-Library.Word"
begin

section \<open>JavaScript strings\<close>

text \<open>
  A JavaScript string is a sequence of 16-bit code units; \<open>length\<close>, \<open>substring\<close>,
  \<open>startsWith\<close>, \<open>endsWith\<close> and \<open>includes\<close> all count code units. String literals of
  the source are written \<open>js ''...''\<close>.
\<close>

type_synonym jschar = "16 word"
type_synonym jsstring = "jschar list"

definition js :: "string \<Rightarrow> jsstring" where
  "js s = map (\<lambda>c. of_nat (of_char c)) s"

fun startsWith :: "jsstring \<Rightarrow> jsstring \<Rightarrow> bool" where
  "startsWith s [] = True"
| "startsWith [] (p # ps) = False"
| "startsWith (c # cs) (p # ps) = (c = p \<and> startsWith cs ps)"

definition endsWith :: "jsstring \<Rightarrow> jsstring \<Rightarrow> bool" where
  "endsWith s p = startsWith (rev s) (rev p)"

fun js_includes :: "jsstring \<Rightarrow> jsstring \<Rightarrow> bool" where
  "js_includes [] p = (p = [])"
| "js_includes (c # cs) p = (startsWith (c # cs) p \<or> js_includes cs p)"

definition substring :: "jsstring \<Rightarrow> nat \<Rightarrow> nat \<Rightarrow> jsstring" where
  "substring s a b = (let lo = min (min a b) (length s); hi = min (max a b) (length s)
                      in take (hi - lo) (drop lo s))"

text \<open>The characters \<open>String.prototype.trim\<close> strips: WhiteSpace and LineTerminator.\<close>

definition js_is_space :: "jschar \<Rightarrow> bool" where
  "js_is_space c =
     (c = 0x09 \<or> c = 0x0A \<or> c = 0x0B \<or> c = 0x0C \<or> c = 0x0D \<or> c = 0x20 \<or> c = 0xA0
      \<or> c = 0x1680 \<or> (0x2000 \<le> c \<and> c \<le> 0x200A) \<or> c = 0x2028 \<or> c = 0x2029
      \<or> c = 0x202F \<or> c = 0x205F \<or> c = 0x3000 \<or> c = 0xFEFF)"

definition trim :: "jsstring \<Rightarrow> jsstring" where
  "trim s = rev (dropWhile js_is_space (rev (dropWhile js_is_space s)))"

section \<open>JSON values, \<open>JSON.parse\<close> and \<open>JSON.stringify\<close>\<close>

text \<open>
  The value \<open>JSON.parse\<close> builds. A number keeps its decimal meaning \<open>m * 10 ^ e\<close>; an
  object keeps its members in source order, duplicates included (a later member
  overrides an earlier one when a property is read).
\<close>

datatype json =
    JNull
  | JBool bool
  | JNum int int
  | JStr jsstring
  | JArr "json list"
  | JObj "(jsstring \<times> json) list"

datatype token =
    TLBrace | TRBrace | TLBrack | TRBrack | TColon | TComma
  | TStr jsstring | TNum int int | TTrue | TFalse | TNull

definition is_ws :: "jschar \<Rightarrow> bool" where
  "is_ws c = (c = 0x20 \<or> c = 0x09 \<or> c = 0x0A \<or> c = 0x0D)"

definition is_digit :: "jschar \<Rightarrow> bool" where
  "is_digit c = (0x30 \<le> c \<and> c \<le> 0x39)"

definition hex_val :: "jschar \<Rightarrow> jschar option" where
  "hex_val c =
     (if 0x30 \<le> c \<and> c \<le> 0x39 then Some (c - 0x30)
      else if 0x41 \<le> c \<and> c \<le> 0x46 then Some (c - 0x41 + 10)
      else if 0x61 \<le> c \<and> c \<le> 0x66 then Some (c - 0x61 + 10)
      else None)"

definition hex4 :: "jschar \<Rightarrow> jschar \<Rightarrow> jschar \<Rightarrow> jschar \<Rightarrow> jschar option" where
  "hex4 a b c d =
     (case (hex_val a, hex_val b, hex_val c, hex_val d) of
        (Some w, Some x, Some y, Some z) \<Rightarrow> Some (((w * 16 + x) * 16 + y) * 16 + z)
      | _ \<Rightarrow> None)"

definition unescape :: "jschar \<Rightarrow> jschar option" where
  "unescape e =
     (if e = 0x22 then Some 0x22
      else if e = 0x5C then Some 0x5C
      else if e = 0x2F then Some 0x2F
      else if e = 0x62 then Some 0x08
      else if e = 0x66 then Some 0x0C
      else if e = 0x6E then Some 0x0A
      else if e = 0x72 then Some 0x0D
      else if e = 0x74 then Some 0x09
      else None)"

text \<open>
  The body of a string token, after the opening quote: the decoded string and the input
  after the closing quote. A raw control character, a bad escape and a missing closing
  quote are syntax errors.
\<close>

fun lex_string :: "jsstring \<Rightarrow> jsstring \<Rightarrow> (jsstring \<times> jsstring) option" where
  "lex_string acc [] = None"
| "lex_string acc [c] = (if c = 0x22 then Some (rev acc, []) else None)"
| "lex_string acc (c # e # r) =
     (if c = 0x22 then Some (rev acc, e # r)
      else if c = 0x5C then
        (if e = 0x75 then
           (case r of
              h1 # h2 # h3 # h4 # r' \<Rightarrow>
                (case hex4 h1 h2 h3 h4 of
                   None \<Rightarrow> None
                 | Some u \<Rightarrow> lex_string (u # acc) r')
            | _ \<Rightarrow> None)
         else
           (case unescape e of
              None \<Rightarrow> None
            | Some u \<Rightarrow> lex_string (u # acc) r))
      else if c < 0x20 then None
      else lex_string (c # acc) (e # r))"

definition digits_val :: "jsstring \<Rightarrow> nat" where
  "digits_val ds = foldl (\<lambda>a c. 10 * a + (unat c - 48)) 0 ds"

definition lex_int_part :: "jsstring \<Rightarrow> (jsstring \<times> jsstring) option" where
  "lex_int_part cs =
     (case cs of
        [] \<Rightarrow> None
      | c # r \<Rightarrow>
          if c = 0x30 then Some ([c], r)
          else if is_digit c then Some (c # takeWhile is_digit r, dropWhile is_digit r)
          else None)"

definition lex_frac :: "jsstring \<Rightarrow> (jsstring \<times> jsstring) option" where
  "lex_frac cs =
     (case cs of
        [] \<Rightarrow> Some ([], [])
      | c # r \<Rightarrow>
          if c = 0x2E then
            (if takeWhile is_digit r = [] then None
             else Some (takeWhile is_digit r, dropWhile is_digit r))
          else Some ([], cs))"

definition lex_exp_digits :: "bool \<Rightarrow> jsstring \<Rightarrow> (int \<times> jsstring) option" where
  "lex_exp_digits neg r =
     (if takeWhile is_digit r = [] then None
      else Some ((if neg then - int (digits_val (takeWhile is_digit r))
                  else int (digits_val (takeWhile is_digit r))),
                 dropWhile is_digit r))"

definition lex_exp :: "jsstring \<Rightarrow> (int \<times> jsstring) option" where
  "lex_exp cs =
     (case cs of
        [] \<Rightarrow> Some (0, [])
      | c # r \<Rightarrow>
          if c = 0x65 \<or> c = 0x45 then
            (case r of
               [] \<Rightarrow> None
             | s # r' \<Rightarrow>
                 if s = 0x2B then lex_exp_digits False r'
                 else if s = 0x2D then lex_exp_digits True r'
                 else lex_exp_digits False r)
          else Some (0, cs))"

definition lex_number :: "jsstring \<Rightarrow> (token \<times> jsstring) option" where
  "lex_number cs =
     (let neg = (cs \<noteq> [] \<and> hd cs = 0x2D);
          r0 = (if neg then tl cs else cs)
      in case lex_int_part r0 of
           None \<Rightarrow> None
         | Some (ip, r1) \<Rightarrow>
             (case lex_frac r1 of
                None \<Rightarrow> None
              | Some (fp, r2) \<Rightarrow>
                  (case lex_exp r2 of
                     None \<Rightarrow> None
                   | Some (e, r3) \<Rightarrow>
                       Some (TNum ((if neg then - 1 else 1) * int (digits_val (ip @ fp)))
                                  (e - int (length fp)), r3))))"

text \<open>One token at the head of the input (which does not start with white space).\<close>

definition next_token :: "jsstring \<Rightarrow> (token \<times> jsstring) option" where
  "next_token cs =
     (case cs of
        [] \<Rightarrow> None
      | c # r \<Rightarrow>
          if c = 0x7B then Some (TLBrace, r)
          else if c = 0x7D then Some (TRBrace, r)
          else if c = 0x5B then Some (TLBrack, r)
          else if c = 0x5D then Some (TRBrack, r)
          else if c = 0x3A then Some (TColon, r)
          else if c = 0x2C then Some (TComma, r)
          else if c = 0x22 then
            (case lex_string [] r of None \<Rightarrow> None | Some (s, r') \<Rightarrow> Some (TStr s, r'))
          else if c = 0x2D \<or> is_digit c then lex_number cs
          else if startsWith cs (js ''true'') then Some (TTrue, drop 4 cs)
          else if startsWith cs (js ''false'') then Some (TFalse, drop 5 cs)
          else if startsWith cs (js ''null'') then Some (TNull, drop 4 cs)
          else None)"

lemma lex_string_shorter: "lex_string acc cs = Some (s, r) \<Longrightarrow> length r < length cs"
proof (induction cs arbitrary: acc rule: length_induct)
  case (1 cs)
  have step: "length r < length cs"
    if "lex_string a ys = Some (s, r)" and "length ys < length cs" for a ys
    using 1(1) that by (meson less_trans)
  show ?case
  proof (cases cs)
    case Nil
    with 1(2) show ?thesis by simp
  next
    case outer: (Cons c cs')
    show ?thesis
    proof (cases cs')
      case Nil
      with 1(2) outer show ?thesis by (simp split: if_splits)
    next
      case (Cons e r0)
      have eq: "cs = c # e # r0" using outer Cons by simp
      consider (quote) "c = 0x22" | (uni) "c = 0x5C" "e = 0x75" | (esc) "c = 0x5C" "e \<noteq> 0x75"
        | (plain) "c \<noteq> 0x22" "c \<noteq> 0x5C"
        by blast
      then show ?thesis
      proof cases
        case quote
        with 1(2) eq show ?thesis by simp
      next
        case uni
        with 1(2) eq obtain h1 h2 h3 h4 r' u where
          "r0 = h1 # h2 # h3 # h4 # r'" "lex_string (u # acc) r' = Some (s, r)"
          by (auto split: list.splits option.splits)
        with step [of "u # acc" r'] eq show ?thesis by simp
      next
        case esc
        with 1(2) eq obtain u where "lex_string (u # acc) r0 = Some (s, r)"
          by (auto split: option.splits)
        with step [of "u # acc" r0] eq show ?thesis by simp
      next
        case plain
        with 1(2) eq have "lex_string (c # acc) (e # r0) = Some (s, r)"
          by (auto split: if_splits)
        with step [of "c # acc" "e # r0"] eq show ?thesis by simp
      qed
    qed
  qed
qed

lemma lex_int_part_shorter: "lex_int_part xs = Some (a, b) \<Longrightarrow> length b < length xs"
  using length_dropWhile_le [of is_digit "tl xs"]
  by (cases xs) (auto simp: lex_int_part_def less_Suc_eq_le split: if_splits)

lemma lex_frac_shorter: "lex_frac xs = Some (a, b) \<Longrightarrow> length b \<le> length xs"
  using length_dropWhile_le [of is_digit "tl xs"]
  by (cases xs) (auto simp: lex_frac_def le_Suc_eq split: if_splits)

lemma lex_exp_digits_shorter: "lex_exp_digits n xs = Some (a, b) \<Longrightarrow> length b \<le> length xs"
  using length_dropWhile_le [of is_digit xs]
  by (auto simp: lex_exp_digits_def split: if_splits)

lemma lex_exp_shorter: "lex_exp xs = Some (a, b) \<Longrightarrow> length b \<le> length xs"
proof (cases xs)
  case Nil
  assume "lex_exp xs = Some (a, b)"
  with Nil show ?thesis by (simp add: lex_exp_def)
next
  case (Cons c r)
  assume h: "lex_exp xs = Some (a, b)"
  show ?thesis
  proof (cases "c = 0x65 \<or> c = 0x45")
    case False
    with h Cons show ?thesis by (auto simp: lex_exp_def)
  next
    case True
    with h Cons obtain n ys where "lex_exp_digits n ys = Some (a, b)" and "length ys \<le> length r"
      by (auto simp: lex_exp_def split: list.splits if_splits)
    with lex_exp_digits_shorter [of n ys a b] Cons show ?thesis by simp
  qed
qed

lemma lex_number_shorter: "lex_number cs = Some (t, r) \<Longrightarrow> length r < length cs"
proof -
  assume "lex_number cs = Some (t, r)"
  then obtain a1 r1 a2 r2 a3 where
      s1: "lex_int_part (if cs \<noteq> [] \<and> hd cs = 0x2D then tl cs else cs) = Some (a1, r1)"
      and s2: "lex_frac r1 = Some (a2, r2)" and s3: "lex_exp r2 = Some (a3, r)"
    by (auto simp: lex_number_def Let_def split: option.splits)
  have "length (if cs \<noteq> [] \<and> hd cs = 0x2D then tl cs else cs) \<le> length cs"
    by simp
  with lex_int_part_shorter [OF s1] lex_frac_shorter [OF s2] lex_exp_shorter [OF s3]
  show ?thesis
    by linarith
qed

lemma next_token_shorter: "next_token cs = Some (t, r) \<Longrightarrow> length r < length cs"
proof (cases cs)
  case Nil
  assume "next_token cs = Some (t, r)"
  with Nil show ?thesis by (simp add: next_token_def)
next
  case (Cons c r0)
  assume h: "next_token cs = Some (t, r)"
  consider (str) "c = 0x22" | (num) "c \<noteq> 0x22" "c = 0x2D \<or> is_digit c"
    | (other) "c \<noteq> 0x22" "\<not> (c = 0x2D \<or> is_digit c)"
    by blast
  then show ?thesis
  proof cases
    case str
    with h Cons obtain s where "lex_string [] r0 = Some (s, r)"
      by (auto simp: next_token_def split: option.splits)
    from lex_string_shorter [OF this] Cons show ?thesis by simp
  next
    case num
    with h Cons have "lex_number cs = Some (t, r)"
      by (auto simp: next_token_def is_digit_def split: if_splits)
    from lex_number_shorter [OF this] show ?thesis .
  next
    case other
    with h Cons have "r = r0 \<or> r = drop 4 cs \<or> r = drop 5 cs"
      by (auto simp: next_token_def split: if_splits)
    with Cons show ?thesis by auto
  qed
qed

function lex :: "jsstring \<Rightarrow> token list option" where
  "lex cs =
     (if dropWhile is_ws cs = [] then Some []
      else (case next_token (dropWhile is_ws cs) of
              None \<Rightarrow> None
            | Some (t, r) \<Rightarrow> (case lex r of None \<Rightarrow> None | Some ts \<Rightarrow> Some (t # ts))))"
  by pat_completeness auto
termination
proof (relation "measure length")
  show "wf (measure length)" by simp
next
  fix cs :: jsstring and x2 t r
  assume "next_token (dropWhile is_ws cs) = Some x2" and "(t, r) = x2"
  then have "length r < length (dropWhile is_ws cs)"
    by (auto dest: next_token_shorter)
  also have "\<dots> \<le> length cs" by (rule length_dropWhile_le)
  finally show "(r, cs) \<in> measure length" by simp
qed


text \<open>
  The grammar over tokens, as a pushdown machine: the stack holds the arrays and objects
  that are still open, innermost first.
\<close>

datatype frame =
    InArr "json list"
  | InObj "(jsstring \<times> json) list"
  | InMember "(jsstring \<times> json) list" jsstring

datatype pstate = PValue | PValueOrEnd | PKeyOrEnd | PKey | PColon | PAfter | PDone json

fun deliver :: "json \<Rightarrow> frame list \<Rightarrow> (pstate \<times> frame list) option" where
  "deliver v [] = Some (PDone v, [])"
| "deliver v (InArr xs # st) = Some (PAfter, InArr (v # xs) # st)"
| "deliver v (InMember ms k # st) = Some (PAfter, InObj ((k, v) # ms) # st)"
| "deliver v (InObj ms # st) = None"

fun value_start :: "token \<Rightarrow> frame list \<Rightarrow> (pstate \<times> frame list) option" where
  "value_start TLBrace st = Some (PKeyOrEnd, InObj [] # st)"
| "value_start TLBrack st = Some (PValueOrEnd, InArr [] # st)"
| "value_start (TStr s) st = deliver (JStr s) st"
| "value_start (TNum m e) st = deliver (JNum m e) st"
| "value_start TTrue st = deliver (JBool True) st"
| "value_start TFalse st = deliver (JBool False) st"
| "value_start TNull st = deliver JNull st"
| "value_start _ st = None"

fun step :: "pstate \<times> frame list \<Rightarrow> token \<Rightarrow> (pstate \<times> frame list) option" where
  "step (PValue, st) t = value_start t st"
| "step (PValueOrEnd, InArr xs # st) TRBrack = deliver (JArr (rev xs)) st"
| "step (PValueOrEnd, st) t = value_start t st"
| "step (PKeyOrEnd, InObj ms # st) TRBrace = deliver (JObj (rev ms)) st"
| "step (PKeyOrEnd, InObj ms # st) (TStr k) = Some (PColon, InMember ms k # st)"
| "step (PKey, InObj ms # st) (TStr k) = Some (PColon, InMember ms k # st)"
| "step (PColon, st) TColon = Some (PValue, st)"
| "step (PAfter, InArr xs # st) TComma = Some (PValue, InArr xs # st)"
| "step (PAfter, InArr xs # st) TRBrack = deliver (JArr (rev xs)) st"
| "step (PAfter, InObj ms # st) TComma = Some (PKey, InObj ms # st)"
| "step (PAfter, InObj ms # st) TRBrace = deliver (JObj (rev ms)) st"
| "step _ _ = None"

fun run :: "pstate \<times> frame list \<Rightarrow> token list \<Rightarrow> json option" where
  "run (PDone v, []) [] = Some v"
| "run s [] = None"
| "run s (t # ts) = (case step s t of None \<Rightarrow> None | Some s' \<Rightarrow> run s' ts)"

text \<open>\<open>JSON.parse\<close>: \<open>None\<close> is the SyntaxError it throws.\<close>

definition JSON_parse :: "jsstring \<Rightarrow> json option" where
  "JSON_parse s = (case lex s of None \<Rightarrow> None | Some ts \<Rightarrow> run (PValue, []) ts)"

text \<open>
  Reading a property of a parsed value. \<open>null.p\<close> throws a TypeError; an object yields
  its last member of that name; for every other value the two names read below
  (\<open>text\<close>, \<open>images\<close>) are undefined.
\<close>

datatype property = PropTypeError | Undefined | Defined json

fun get_prop :: "json \<Rightarrow> jsstring \<Rightarrow> property" where
  "get_prop JNull k = PropTypeError"
| "get_prop (JObj ms) k = (case map_of (rev ms) k of None \<Rightarrow> Undefined | Some v \<Rightarrow> Defined v)"
| "get_prop _ k = Undefined"

text \<open>
  Truthiness, as \<open>||\<close> tests it. A number literal \<open>m * 10 ^ e\<close> becomes the double
  nearest to it, which is zero exactly when its magnitude is at most \<open>2 ^ -1075\<close>.
\<close>

definition num_is_zero :: "int \<Rightarrow> int \<Rightarrow> bool" where
  "num_is_zero m e = (if 0 \<le> e then m = 0 else \<bar>m\<bar> * 2 ^ 1075 \<le> 10 ^ nat (- e))"

fun js_truthy :: "json \<Rightarrow> bool" where
  "js_truthy JNull = False"
| "js_truthy (JBool b) = b"
| "js_truthy (JNum m e) = (\<not> num_is_zero m e)"
| "js_truthy (JStr s) = (s \<noteq> [])"
| "js_truthy (JArr xs) = True"
| "js_truthy (JObj ms) = True"

text \<open>\<open>JSON.stringify\<close> of a string (QuoteJSONString): surrogate pairs pass, lone
  surrogates and control characters are escaped.\<close>

definition hex_digit :: "jschar \<Rightarrow> jschar" where
  "hex_digit n = (if n < 10 then 0x30 + n else 0x61 + (n - 10))"

definition unicode_escape :: "jschar \<Rightarrow> jsstring" where
  "unicode_escape c =
     [0x5C, 0x75, hex_digit (c div 0x1000), hex_digit ((c div 0x100) mod 16),
      hex_digit ((c div 0x10) mod 16), hex_digit (c mod 16)]"

definition quote_unit :: "jschar \<Rightarrow> jsstring" where
  "quote_unit c =
     (if c = 0x08 then [0x5C, 0x62]
      else if c = 0x09 then [0x5C, 0x74]
      else if c = 0x0A then [0x5C, 0x6E]
      else if c = 0x0C then [0x5C, 0x66]
      else if c = 0x0D then [0x5C, 0x72]
      else if c = 0x22 then [0x5C, 0x22]
      else if c = 0x5C then [0x5C, 0x5C]
      else if c < 0x20 \<or> (0xD800 \<le> c \<and> c \<le> 0xDFFF) then unicode_escape c
      else [c])"

fun quote_units :: "jsstring \<Rightarrow> jsstring" where
  "quote_units [] = []"
| "quote_units [c] = quote_unit c"
| "quote_units (c # d # r) =
     (if 0xD800 \<le> c \<and> c \<le> 0xDBFF \<and> 0xDC00 \<le> d \<and> d \<le> 0xDFFF
      then c # d # quote_units r
      else quote_unit c @ quote_units (d # r))"

definition quote :: "jsstring \<Rightarrow> jsstring" where
  "quote s = [0x22] @ quote_units s @ [0x22]"

fun join :: "jsstring list \<Rightarrow> jsstring \<Rightarrow> jsstring" where
  "join [] sep = []"
| "join [x] sep = x"
| "join (x # y # r) sep = x @ sep @ join (y # r) sep"

text \<open>\<open>JSON.stringify({ text, images })\<close> for a string and an array of strings.\<close>

definition JSON_stringify :: "jsstring \<Rightarrow> jsstring list \<Rightarrow> jsstring" where
  \<open>JSON_stringify t imgs =
     js ''{"text":'' @ quote t @ js '',"images":['' @ join (map quote imgs) (js '','') @ js '']}''\<close>

section \<open>Content codec\<close>

text \<open>
  \<open>parseMessageContent\<close> (ChatInterface.tsx): the decoded value has whatever JSON
  values the stored string holds in its \<open>text\<close> and \<open>images\<close> members.
\<close>

record message_content =
  mc_text :: json
  mc_images :: "json list"

definition plain_content :: "jsstring \<Rightarrow> message_content" where
  "plain_content content = \<lparr>mc_text = JStr content, mc_images = []\<rparr>"

definition parseMessageContent :: "jsstring \<Rightarrow> message_content" where
  \<open>parseMessageContent content =
     (if startsWith content (js ''{'') \<and> endsWith content (js ''}'') then
        (case JSON_parse content of
           None \<Rightarrow> plain_content content
         | Some parsed \<Rightarrow>
             (case get_prop parsed (js ''text'') of
                PropTypeError \<Rightarrow> plain_content content
              | Undefined \<Rightarrow> plain_content content
              | Defined t \<Rightarrow>
                  \<lparr>mc_text = (if js_truthy t then t else JStr []),
                   mc_images = (case get_prop parsed (js ''images'') of
                                  Defined (JArr xs) \<Rightarrow> xs
                                | _ \<Rightarrow> [])\<rparr>))
      else plain_content content)\<close>

text \<open>
  The content string \<open>storeMessageInDB\<close> writes (and \<open>sendMessage\<close> puts in the
  placeholder): plain text without images, JSON with them. An omitted \<open>images\<close>
  argument is \<open>None\<close>.
\<close>

definition encode :: "jsstring \<Rightarrow> jsstring list option \<Rightarrow> jsstring" where
  "encode t images =
     (case images of
        None \<Rightarrow> t
      | Some imgs \<Rightarrow> if length imgs > 0 then JSON_stringify t imgs else t)"


text \<open>
  A well-formed structured encoding: a string in braces that \<open>JSON.parse\<close> accepts
  and whose value has a \<open>text\<close> member.
\<close>

definition well_formed_structured :: "jsstring \<Rightarrow> bool" where
  \<open>well_formed_structured s =
     (startsWith s (js ''{'') \<and> endsWith s (js ''}'') \<and>
      (case JSON_parse s of
         None \<Rightarrow> False
       | Some parsed \<Rightarrow>
           (case get_prop parsed (js ''text'') of Defined t \<Rightarrow> True | _ \<Rightarrow> False)))\<close>

section \<open>Image files\<close>

text \<open>\<open>isValidImageFile\<close> (imagehandling.ts) reads the MIME type and the size in bytes
  of a \<open>File\<close>.\<close>

record image_file =
  file_type :: jsstring
  file_size :: nat

definition MAX_SIZE :: nat where
  "MAX_SIZE = 4 * 1024 * 1024"

definition isValidImageFile :: "image_file \<Rightarrow> bool" where
  "isValidImageFile f =
     (if \<not> startsWith (file_type f) (js ''image/'') then False
      else if file_size f > MAX_SIZE then False
      else True)"

text \<open>
  \<open>processFile\<close> of the image uploader: the file is validated, compressed, converted
  to a data URL and handed to \<open>onImageUpload\<close>. The outcomes of the two asynchronous
  helpers are inputs (\<open>None\<close>: the promise rejects). The result is the error shown and
  the data URL passed to \<open>onImageUpload\<close>, if it was called.
\<close>

record uploader_result =
  shown_error :: "jsstring option"
  uploaded :: "jsstring option"

definition processFile :: "image_file \<Rightarrow> image_file option \<Rightarrow> jsstring option \<Rightarrow> uploader_result" where
  "processFile f compressed dataUrl =
     (if \<not> isValidImageFile f then
        \<lparr>shown_error = Some (js ''Please upload a valid image file (max 5MB)''), uploaded = None\<rparr>
      else
        (case compressed of
           None \<Rightarrow> \<lparr>shown_error = Some (js ''Failed to process image''), uploaded = None\<rparr>
         | Some cf \<Rightarrow>
             (case dataUrl of
                None \<Rightarrow> \<lparr>shown_error = Some (js ''Failed to process image''), uploaded = None\<rparr>
              | Some url \<Rightarrow> \<lparr>shown_error = None, uploaded = Some url\<rparr>)))"

section \<open>Messages and errors\<close>

datatype role = User | Assistant

text \<open>
  A \<open>Message\<close> (types/index.ts). A placeholder that was never stored has no \<open>id\<close>.
  The content is a string as stored, and whatever \<open>parseMessageContent\<close> found in the
  \<open>text\<close> member once \<open>sendMessage\<close> has processed the history.
\<close>

record 'c message =
  m_id :: "jsstring option"
  m_chat_id :: jsstring
  m_role :: role
  m_content :: 'c
  m_created_at :: jsstring
  m_model :: "jsstring option"

text \<open>
  What the code throws: \<open>new Error(message)\<close>, the TypeError of reading a property of
  \<open>undefined\<close>, the rejection of \<open>fetch\<close>, and the error object of a database reply.
\<close>

datatype error =
    Error jsstring
  | TypeError
  | FetchError
  | DbError jsstring

text \<open>\<open>err.message\<close>; the text of the two errors the runtime raises is the runtime's.\<close>

fun message_of :: "error \<Rightarrow> jsstring" where
  "message_of (Error msg) = msg"
| "message_of TypeError = js ''Cannot read properties of undefined''"
| "message_of FetchError = js ''Failed to fetch''"
| "message_of (DbError msg) = msg"

text \<open>Array helpers: \<open>xs.slice(-10)\<close>, \<open>xs.slice(0, -1)\<close> and \<open>xs[xs.length - 1]\<close>.\<close>

definition slice_last :: "nat \<Rightarrow> 'a list \<Rightarrow> 'a list" where
  "slice_last n xs = drop (length xs - n) xs"

definition slice_but_last :: "'a list \<Rightarrow> 'a list" where
  "slice_but_last xs = take (length xs - 1) xs"

definition last_element :: "'a list \<Rightarrow> 'a option" where
  "last_element xs = (if xs = [] then None else Some (xs ! (length xs - 1)))"

function decimal :: "nat \<Rightarrow> jsstring" where
  "decimal n = (if n < 10 then [0x30 + of_nat n] else decimal (n div 10) @ [0x30 + of_nat (n mod 10)])"
  by pat_completeness auto
termination
  by (relation "measure id") auto

section \<open>Provider clients\<close>

text \<open>
  A message of a completion request: its content is a string, or the list of parts of a
  multimodal message (one text part, then one image part per image).
\<close>

datatype content_part = TextPart json | ImagePart jsstring

datatype api_content = Text json | Parts "content_part list"

record api_message =
  api_role :: role
  api_content :: api_content

record request =
  req_model :: jsstring
  req_messages :: "api_message list"

text \<open>\<open>modelSupportsVision\<close> and \<open>createImageMessage\<close> (imagehandling.ts).\<close>

definition modelSupportsVision :: "jsstring \<Rightarrow> bool" where
  "modelSupportsVision modelName =
     (js_includes modelName (js ''llama-4-scout'') \<or> js_includes modelName (js ''llama-4-maverick''))"

definition image_parts :: "json \<Rightarrow> jsstring list \<Rightarrow> content_part list" where
  "image_parts t images =
     TextPart (if js_truthy t then t else JStr (js ''What's in this image?'')) # map ImagePart images"

definition createImageMessage :: "json \<Rightarrow> jsstring list \<Rightarrow> api_message" where
  "createImageMessage t images = \<lparr>api_role = User, api_content = Parts (image_parts t images)\<rparr>"

text \<open>The environment of the build: the Groq key and model of \<open>import.meta.env\<close>.\<close>

record env =
  VITE_GROQ_CHAT_API_KEY :: "jsstring option"
  VITE_GROQ_CHAT_MODEL :: "jsstring option"

definition falsy_string :: "jsstring option \<Rightarrow> bool" where
  "falsy_string v = (v = None \<or> v = Some [])"

definition groq_model :: "env \<Rightarrow> jsstring" where
  "groq_model e =
     (if falsy_string (VITE_GROQ_CHAT_MODEL e) then js ''meta-llama/llama-4-scout-17b-16e-instruct''
      else the (VITE_GROQ_CHAT_MODEL e))"

text \<open>
  The reply to a completion request: \<open>fetch\<close> rejects, or the response is not ok and
  the code throws an error with the given message, or the response is ok and holds the
  completion text, if it has the expected shape.
\<close>

datatype reply = FetchRejects | NotOk jsstring | Ok "jsstring option"

subsection \<open>Remote client\<close>

text \<open>
  The \<open>messages\<close> of the request \<open>getGroqCompletion\<close> sends. With images the last ten
  messages are taken and the last of them becomes multimodal (a TypeError when there
  is no message at all); without images every message of the history is mapped.
\<close>

definition groq_api_messages :: "json message list \<Rightarrow> jsstring list option \<Rightarrow> error + api_message list" where
  "groq_api_messages messages imageData =
     (if imageData \<noteq> None \<and> length (the imageData) > 0 then
        (let recentMessages = slice_last 10 messages;
             otherMessages = map (\<lambda>msg. \<lparr>api_role = m_role msg, api_content = Text (m_content msg)\<rparr>)
                               (slice_but_last recentMessages)
         in case last_element recentMessages of
              None \<Rightarrow> Inl TypeError
            | Some lastMessage \<Rightarrow>
                Inr (otherMessages @
                     [\<lparr>api_role = m_role lastMessage,
                       api_content = Parts (image_parts (m_content lastMessage) (the imageData))\<rparr>]))
      else
        Inr (map (\<lambda>msg. \<lparr>api_role = m_role msg, api_content = Text (m_content msg)\<rparr>) messages))"

text \<open>The debug log reads \<open>m.content.length\<close> of every message: a TypeError on \<open>null\<close>.\<close>

definition log_throws :: "api_message list \<Rightarrow> bool" where
  "log_throws apiMessages = (Text JNull \<in> set (map api_content apiMessages))"

text \<open>
  \<open>getGroqCompletion\<close>: the request that was sent, if one was, and the completion or
  the error thrown.
\<close>

definition getGroqCompletion ::
  "env \<Rightarrow> json message list \<Rightarrow> jsstring list option \<Rightarrow> reply \<Rightarrow> request option \<times> (error + jsstring)" where
  "getGroqCompletion e messages imageData r =
     (if falsy_string (VITE_GROQ_CHAT_API_KEY e) then (None, Inl (Error (js ''Groq Chat API key is missing'')))
      else
        (case groq_api_messages messages imageData of
           Inl err \<Rightarrow> (None, Inl err)
         | Inr apiMessages \<Rightarrow>
             if log_throws apiMessages then (None, Inl TypeError)
             else
               (Some \<lparr>req_model = groq_model e, req_messages = apiMessages\<rparr>,
                case r of
                  FetchRejects \<Rightarrow> Inl FetchError
                | NotOk msg \<Rightarrow> Inl (Error msg)
                | Ok None \<Rightarrow> Inl TypeError
                | Ok (Some c) \<Rightarrow> Inr c)))"

subsection \<open>Local client\<close>

text \<open>The reply of \<open>/api/tags\<close>: the names of the installed models, when the body has
  a \<open>models\<close> member.\<close>

datatype tags_reply = TagsRejects | TagsNotOk nat | TagsOk "jsstring list option"

text \<open>
  The model check at the start of \<open>getOllamaCompletion\<close>, as the inner \<open>try\<close> block
  runs it, and with its \<open>catch\<close>, which replaces every error by one message.
\<close>

definition check_model_try :: "tags_reply \<Rightarrow> jsstring \<Rightarrow> error + jsstring" where
  "check_model_try tags model =
     (case tags of
        TagsRejects \<Rightarrow> Inl FetchError
      | TagsNotOk status \<Rightarrow> Inl (Error (js ''Ollama server not available: '' @ decimal status))
      | TagsOk None \<Rightarrow> Inl (Error (js ''No models found in Ollama''))
      | TagsOk (Some availableModels) \<Rightarrow>
          if model \<notin> set availableModels then
            (if length availableModels > 0 then Inr (availableModels ! 0)
             else Inl (Error (js ''No models available in Ollama'')))
          else Inr model)"

definition server_not_available :: error where
  "server_not_available =
     Error (js ''Ollama server not available or not running at http://localhost:11434. Please make sure Ollama is installed and running.'')"

definition check_model :: "tags_reply \<Rightarrow> jsstring \<Rightarrow> error + jsstring" where
  "check_model tags model =
     (case check_model_try tags model of
        Inl e \<Rightarrow> Inl server_not_available
      | Inr m \<Rightarrow> Inr m)"

definition ollama_role :: "role \<Rightarrow> role" where
  "ollama_role r = (if r = Assistant then Assistant else User)"

definition ollama_api_messages ::
  "jsstring \<Rightarrow> json message list \<Rightarrow> jsstring list option \<Rightarrow> error + api_message list" where
  "ollama_api_messages model messages imageData =
     (let hasVisionSupport = modelSupportsVision model;
          recentMessages = slice_last 10 messages
      in if hasVisionSupport \<and> imageData \<noteq> None \<and> length (the imageData) > 0 then
           (case last_element recentMessages of
              None \<Rightarrow> Inl TypeError
            | Some lastMessage \<Rightarrow>
                Inr (map (\<lambda>msg. \<lparr>api_role = ollama_role (m_role msg), api_content = Text (m_content msg)\<rparr>)
                       (slice_but_last recentMessages)
                     @ [createImageMessage (m_content lastMessage) (the imageData)]))
         else
           Inr (map (\<lambda>msg. \<lparr>api_role = ollama_role (m_role msg), api_content = Text (m_content msg)\<rparr>)
                  recentMessages))"

definition DEFAULT_OLLAMA_MODEL :: jsstring where
  "DEFAULT_OLLAMA_MODEL = js ''gemma3:4b-it-q4_K_M''"

text \<open>
  \<open>getOllamaCompletion\<close>: the chat request that was sent, if one was, and the completion
  or the error thrown. An omitted \<open>model\<close> argument is \<open>None\<close>.
\<close>

definition getOllamaCompletion ::
  "json message list \<Rightarrow> jsstring option \<Rightarrow> jsstring list option \<Rightarrow> tags_reply \<Rightarrow> reply
   \<Rightarrow> request option \<times> (error + jsstring)" where
  "getOllamaCompletion messages model_arg imageData tags r =
     (case check_model tags (case model_arg of None \<Rightarrow> DEFAULT_OLLAMA_MODEL | Some m \<Rightarrow> m) of
        Inl err \<Rightarrow> (None, Inl err)
      | Inr model \<Rightarrow>
          (case ollama_api_messages model messages imageData of
             Inl err \<Rightarrow> (None, Inl err)
           | Inr apiMessages \<Rightarrow>
               (Some \<lparr>req_model = model, req_messages = apiMessages\<rparr>,
                case r of
                  FetchRejects \<Rightarrow> Inl FetchError
                | NotOk msg \<Rightarrow> Inl (Error msg)
                | Ok None \<Rightarrow> Inl (Error (js ''Invalid response format from Ollama''))
                | Ok (Some c) \<Rightarrow> Inr c)))"

section \<open>Session pipeline\<close>

datatype mode = Online | Offline

text \<open>
  The state of the chat component. An entry of the in-memory sequence is a JavaScript
  object: its reference and its fields. \<open>sendMessage\<close> finds its placeholders by
  reference (\<open>msg === tempUserMessage\<close>), so every object that enters the sequence
  gets a fresh reference from \<open>s_next_ref\<close>.
\<close>

type_synonym entry = "nat \<times> jsstring message"

record session =
  s_messages :: "entry list"
  s_loading :: bool
  s_error :: "jsstring option"
  s_sending :: bool
  s_mode :: mode
  s_ollamaModel :: jsstring
  s_ollamaAvailable :: bool
  s_next_ref :: nat

text \<open>The inputs of the component: the conversation, the signed-in user, the build.\<close>

record props =
  chatId :: jsstring
  user :: "jsstring option"
  p_env :: env

text \<open>The calls that leave the component, in the order they are made.\<close>

datatype effect =
    InsertMessage jsstring role jsstring
  | SelectMessages jsstring
  | GroqChat request
  | OllamaTags
  | OllamaChat request
  | SelectTitle jsstring
  | UpdateTitle jsstring jsstring
  | UpdatePreferredMode jsstring mode

text \<open>A database reply \<open>{ data, error }\<close>; the client resolves with it and does not
  reject.\<close>

record 'a db_reply =
  rep_data :: "'a option"
  rep_error :: "error option"

text \<open>What the outside answers during one \<open>sendMessage\<close>, one field per call site.\<close>

record send_world =
  now_user :: jsstring
  user_insert :: "jsstring message list db_reply"
  all_messages :: "jsstring message list db_reply"
  now_ai :: jsstring
  groq_reply :: reply
  tags :: tags_reply
  ollama_reply :: reply
  ai_insert :: "jsstring message list db_reply"
  chat_title :: "jsstring db_reply"
  error_insert :: "jsstring message list db_reply"

subsection \<open>Change events\<close>

text \<open>The callback of the INSERT subscription: \<open>prev.some(msg => msg.id === newMessage.id)\<close>.\<close>

definition on_insert :: "session \<Rightarrow> jsstring message \<Rightarrow> session" where
  "on_insert s newMessage =
     (if m_id newMessage \<in> set (map (\<lambda>msg. m_id (snd msg)) (s_messages s)) then s
      else s\<lparr>s_messages := s_messages s @ [(s_next_ref s, newMessage)],
             s_next_ref := s_next_ref s + 1\<rparr>)"

subsection \<open>Send\<close>

definition storeMessageInDB :: "props \<Rightarrow> role \<Rightarrow> jsstring \<Rightarrow> jsstring list option \<Rightarrow> effect" where
  "storeMessageInDB p r t images = InsertMessage (chatId p) r (encode t images)"

definition returns_early :: "props \<Rightarrow> jsstring \<Rightarrow> jsstring list option \<Rightarrow> bool" where
  "returns_early p content images =
     ((trim content = [] \<and> (images = None \<or> length (the images) = 0))
      \<or> user p = None \<or> chatId p = [])"

text \<open>The outer \<open>catch\<close> and \<open>finally\<close>.\<close>

definition send_failed :: "session \<Rightarrow> error \<Rightarrow> session" where
  "send_failed s err =
     s\<lparr>s_error := Some (js ''Error sending message: '' @ message_of err), s_sending := False\<rparr>"

text \<open>
  The provider call of the inner \<open>try\<close>: Groq with the images of this turn in online
  mode, Ollama without images in offline mode.
\<close>

definition complete ::
  "props \<Rightarrow> session \<Rightarrow> json message list \<Rightarrow> jsstring list option \<Rightarrow> send_world
   \<Rightarrow> effect list \<times> (error + jsstring)" where
  "complete p s processedMessages images w =
     (if s_mode s = Online then
        (if falsy_string (VITE_GROQ_CHAT_API_KEY (p_env p)) then
           ([], Inl (Error (js ''Please set a valid Groq Chat API key in your .env file'')))
         else
           (case getGroqCompletion (p_env p) processedMessages images (groq_reply w) of
              (req, res) \<Rightarrow> ((case req of None \<Rightarrow> [] | Some r \<Rightarrow> [GroqChat r]), res)))
      else
        (if \<not> s_ollamaAvailable s then
           ([], Inl (Error (js ''Ollama is not running. Please start Ollama and try again.'')))
         else
           (case getOllamaCompletion processedMessages (Some (s_ollamaModel s)) None (tags w) (ollama_reply w) of
              (req, res) \<Rightarrow>
                (OllamaTags # (case req of None \<Rightarrow> [] | Some r \<Rightarrow> [OllamaChat r]),
                 (case res of
                    Inl ollamaError \<Rightarrow>
                      Inl (Error (js ''Failed to get response from Ollama: '' @ message_of ollamaError))
                  | Inr aiResponse \<Rightarrow> Inr aiResponse)))))"

definition newTitle :: "jsstring \<Rightarrow> jsstring" where
  "newTitle content =
     (if length content > 30 then substring content 0 30 @ js ''...'' else content)"

definition update_title :: "props \<Rightarrow> jsstring \<Rightarrow> json message list \<Rightarrow> send_world \<Rightarrow> effect list" where
  "update_title p content processedMessages w =
     (if length processedMessages \<le> 2 then
        SelectTitle (chatId p) #
        (if rep_error (chat_title w) = None \<and> rep_data (chat_title w) = Some (js ''New Chat'')
         then [UpdateTitle (chatId p) (newTitle content)]
         else [])
      else [])"

text \<open>The inner \<open>catch\<close>: the thinking placeholder goes, an error message is stored.\<close>

definition ai_failed :: "props \<Rightarrow> session \<Rightarrow> nat \<Rightarrow> error \<Rightarrow> send_world \<Rightarrow> session \<times> effect list" where
  "ai_failed p s tempAiRef aiError w =
     (let s1 = s\<lparr>s_error := Some (js ''AI response error: '' @ message_of aiError),
                 s_messages := filter (\<lambda>msg. fst msg \<noteq> tempAiRef) (s_messages s)\<rparr>;
          s2 = (case rep_data (error_insert w) of
                  Some (errorMsg # rest) \<Rightarrow>
                    s1\<lparr>s_messages := s_messages s1 @ [(s_next_ref s1, errorMsg)],
                       s_next_ref := s_next_ref s1 + 1\<rparr>
                | _ \<Rightarrow> s1)
      in (s2\<lparr>s_sending := False\<rparr>,
          [storeMessageInDB p Assistant
             (js ''Sorry, I encountered an error while processing your request: '' @ message_of aiError
              @ js ''. Please try again.'') (Some [])]))"

text \<open>The assistant turn: thinking placeholder, provider call, stored reply, title.\<close>

definition ai_turn ::
  "props \<Rightarrow> session \<Rightarrow> jsstring \<Rightarrow> jsstring list option \<Rightarrow> json message list \<Rightarrow> send_world
   \<Rightarrow> session \<times> effect list" where
  "ai_turn p s content images processedMessages w =
     (let tempAiRef = s_next_ref s;
          tempAiMessage =
            \<lparr>m_id = None, m_chat_id = chatId p, m_role = Assistant, m_content = js ''...'',
             m_created_at = now_ai w,
             m_model = Some (if s_mode s = Online then js ''groq-thinking'' else js ''ollama-thinking'')\<rparr>;
          s1 = s\<lparr>s_messages := s_messages s @ [(tempAiRef, tempAiMessage)],
                 s_next_ref := s_next_ref s + 1\<rparr>
      in case complete p s processedMessages images w of
           (called, Inl aiError) \<Rightarrow>
             (case ai_failed p s1 tempAiRef aiError w of (s', stored) \<Rightarrow> (s', called @ stored))
         | (called, Inr aiResponse) \<Rightarrow>
             (let s2 = s1\<lparr>s_messages := filter (\<lambda>msg. fst msg \<noteq> tempAiRef) (s_messages s1)\<rparr>;
                  stored = [storeMessageInDB p Assistant aiResponse None]
              in case rep_error (ai_insert w) of
                   Some aiMessageError \<Rightarrow>
                     (case ai_failed p s2 tempAiRef aiMessageError w of
                        (s', stored') \<Rightarrow> (s', called @ stored @ stored'))
                 | None \<Rightarrow>
                     (let s3 = (case rep_data (ai_insert w) of
                                  Some (realAiMessage # rest) \<Rightarrow>
                                    s2\<lparr>s_messages :=
                                         filter (\<lambda>msg. fst msg \<noteq> tempAiRef) (s_messages s2)
                                         @ [(s_next_ref s2, realAiMessage)],
                                       s_next_ref := s_next_ref s2 + 1\<rparr>
                                | _ \<Rightarrow> s2)
                      in (s3\<lparr>s_sending := False\<rparr>,
                          called @ stored @ update_title p content processedMessages w))))"

definition processed :: "jsstring message \<Rightarrow> json message" where
  "processed msg =
     \<lparr>m_id = m_id msg, m_chat_id = m_chat_id msg, m_role = m_role msg,
      m_content = mc_text (parseMessageContent (m_content msg)),
      m_created_at = m_created_at msg, m_model = m_model msg\<rparr>"

text \<open>The optimistic placeholder of the user message, and the state once it is shown.\<close>

definition tempUserMessage :: "props \<Rightarrow> jsstring \<Rightarrow> jsstring list option \<Rightarrow> send_world \<Rightarrow> jsstring message" where
  "tempUserMessage p content images w =
     \<lparr>m_id = None, m_chat_id = chatId p, m_role = User, m_content = encode content images,
      m_created_at = now_user w, m_model = None\<rparr>"

definition optimistic :: "props \<Rightarrow> session \<Rightarrow> jsstring \<Rightarrow> jsstring list option \<Rightarrow> send_world \<Rightarrow> session" where
  "optimistic p s content images w =
     s\<lparr>s_sending := True, s_error := None,
       s_messages := s_messages s @ [(s_next_ref s, tempUserMessage p content images w)],
       s_next_ref := s_next_ref s + 1\<rparr>"

text \<open>The stored record takes the place of the placeholder, found by reference.\<close>

definition replace_placeholder :: "session \<Rightarrow> nat \<Rightarrow> jsstring message list db_reply \<Rightarrow> session" where
  "replace_placeholder s tempUserRef userMessage =
     (case rep_data userMessage of
        Some (realUserMessage # rest) \<Rightarrow>
          s\<lparr>s_messages := map (\<lambda>msg. if fst msg = tempUserRef then (s_next_ref s, realUserMessage) else msg)
                             (s_messages s),
            s_next_ref := s_next_ref s + 1\<rparr>
      | _ \<Rightarrow> s)"

text \<open>\<open>sendMessage\<close>: the new state and the calls made.\<close>

definition sendMessage ::
  "props \<Rightarrow> session \<Rightarrow> jsstring \<Rightarrow> jsstring list option \<Rightarrow> send_world \<Rightarrow> session \<times> effect list" where
  "sendMessage p s content images w =
     (if returns_early p content images then (s, [])
      else
        (let s1 = optimistic p s content images w;
             stored = [storeMessageInDB p User content images]
         in case rep_error (user_insert w) of
              Some userMessageError \<Rightarrow> (send_failed s1 userMessageError, stored)
            | None \<Rightarrow>
                (let s2 = replace_placeholder s1 (s_next_ref s) (user_insert w);
                     selected = stored @ [SelectMessages (chatId p)]
                 in case rep_error (all_messages w) of
                      Some allMessagesError \<Rightarrow> (send_failed s2 allMessagesError, selected)
                    | None \<Rightarrow>
                        (case rep_data (all_messages w) of
                           None \<Rightarrow> (send_failed s2 TypeError, selected)
                         | Some allMessagesData \<Rightarrow>
                             (case ai_turn p s2 content images (map processed allMessagesData) w of
                                (s', called) \<Rightarrow> (s', selected @ called))))))"

subsection \<open>The message input\<close>

text \<open>
  \<open>sendMessage\<close> is reached through \<open>handleSend\<close> of the message input, which holds
  the draft text and the queued images and is disabled while a Send is in flight.
\<close>

record input =
  draft :: jsstring
  queued :: "jsstring list"

definition disabled :: "session \<Rightarrow> bool" where
  "disabled s = (s_sending s \<or> (s_mode s = Offline \<and> \<not> s_ollamaAvailable s))"

definition handleSend ::
  "props \<Rightarrow> session \<Rightarrow> input \<Rightarrow> send_world \<Rightarrow> session \<times> input \<times> effect list" where
  "handleSend p s inp w =
     (if (trim (draft inp) \<noteq> [] \<or> length (queued inp) > 0) \<and> \<not> disabled s then
        (case sendMessage p s (draft inp) (if length (queued inp) > 0 then Some (queued inp) else None) w of
           (s', called) \<Rightarrow> (s', \<lparr>draft = [], queued = []\<rparr>, called))
      else (s, inp, []))"

subsection \<open>Mode switch\<close>

definition toggleMode :: "props \<Rightarrow> session \<Rightarrow> session \<times> effect list" where
  "toggleMode p s =
     (if s_mode s = Online \<and> \<not> s_ollamaAvailable s then
        (s\<lparr>s_error := Some (js ''Ollama is not running. Please start Ollama before switching to offline mode.'')\<rparr>, [])
      else
        (let newMode = (if s_mode s = Online then Offline else Online)
         in (s\<lparr>s_mode := newMode\<rparr>,
             (case user p of None \<Rightarrow> [] | Some uid \<Rightarrow> [UpdatePreferredMode uid newMode]))))"

section \<open>An example session\<close>

text \<open>
  A signed-in user in online mode with a Groq key, an empty conversation, and the
  replies of a first exchange that goes through.
\<close>

definition env0 :: env where
  "env0 = \<lparr>VITE_GROQ_CHAT_API_KEY = Some (js ''gsk_example''), VITE_GROQ_CHAT_MODEL = None\<rparr>"

definition props0 :: props where
  "props0 = \<lparr>chatId = js ''chat-1'', user = Some (js ''user-1''), p_env = env0\<rparr>"

definition session0 :: session where
  "session0 =
     \<lparr>s_messages = [], s_loading = False, s_error = None, s_sending = False, s_mode = Online,
      s_ollamaModel = DEFAULT_OLLAMA_MODEL, s_ollamaAvailable = False, s_next_ref = 0\<rparr>"

definition stored :: "jsstring \<Rightarrow> role \<Rightarrow> 'c \<Rightarrow> 'c message" where
  "stored i r c =
     \<lparr>m_id = Some i, m_chat_id = js ''chat-1'', m_role = r, m_content = c,
      m_created_at = js ''2025-01-01T00:00:00.000Z'', m_model = None\<rparr>"

definition long_text :: jsstring where
  "long_text = js ''This is a very long opening message exceeding thirty characters''"

definition world0 :: send_world where
  "world0 =
     \<lparr>now_user = js ''2025-01-01T00:00:00.000Z'',
      user_insert = \<lparr>rep_data = Some [stored (js ''m1'') User long_text], rep_error = None\<rparr>,
      all_messages = \<lparr>rep_data = Some [stored (js ''m1'') User long_text], rep_error = None\<rparr>,
      now_ai = js ''2025-01-01T00:00:01.000Z'',
      groq_reply = Ok (Some (js ''Hi there'')),
      tags = TagsRejects,
      ollama_reply = FetchRejects,
      ai_insert = \<lparr>rep_data = Some [stored (js ''m2'') Assistant (js ''Hi there'')], rep_error = None\<rparr>,
      chat_title = \<lparr>rep_data = Some (js ''New Chat''), rep_error = None\<rparr>,
      error_insert = \<lparr>rep_data = None, rep_error = None\<rparr>\<rparr>"

text \<open>The same, but the write of the user message fails.\<close>

definition world_fail :: send_world where
  "world_fail = world0\<lparr>user_insert := \<lparr>rep_data = None, rep_error = Some (DbError (js ''connection lost''))\<rparr>\<rparr>"


text \<open>A history of eleven stored messages.\<close>

definition history11 :: "json message list" where
  "history11 = replicate 11 (stored (js ''m'') User (JStr (js ''hello'')))"

section \<open>Properties of the content codec\<close>

text \<open>
  Claim C1, as stated, fails: a plain text message that is itself a JSON object with a
  \<open>text\<close> member is stored unchanged and then decoded as structured content. The
  message \<open>{"text":"hi"}\<close>, sent without images, decodes to the text \<open>hi\<close>.
\<close>

theorem decode_encode_plain_counterexample:
  \<open>encode (js ''{"text":"hi"}'') (Some []) = js ''{"text":"hi"}'' \<and>
   parseMessageContent (encode (js ''{"text":"hi"}'') (Some [])) =
     \<lparr>mc_text = JStr (js ''hi''), mc_images = []\<rparr> \<and>
   parseMessageContent (encode (js ''{"text":"hi"}'') (Some [])) \<noteq>
     \<lparr>mc_text = JStr (js ''{"text":"hi"}''), mc_images = []\<rparr>\<close>
  by code_simp

text \<open>
  Claim C1, amended: without images the encoding is the text itself, for every text, and
  decoding it gives the text back with no images whenever the text is not itself a
  well-formed structured encoding.
\<close>

theorem decode_encode_plain:
  "encode t (Some []) = t \<and> encode t None = t \<and>
   (\<not> well_formed_structured t \<longrightarrow>
      parseMessageContent (encode t (Some [])) = \<lparr>mc_text = JStr t, mc_images = []\<rparr>)"
  by (auto simp: encode_def parseMessageContent_def well_formed_structured_def plain_content_def
      split: option.splits property.splits)

theorem decode_encode_plain_witness:
  \<open>\<not> well_formed_structured (js ''{hello}'') \<and>
   parseMessageContent (encode (js ''{hello}'') (Some [])) =
     \<lparr>mc_text = JStr (js ''{hello}''), mc_images = []\<rparr>\<close>
proof -
  have h: \<open>\<not> well_formed_structured (js ''{hello}'')\<close>
    by code_simp
  with decode_encode_plain [of \<open>js ''{hello}''\<close>] show ?thesis
    by blast
qed

text \<open>
  Claim C2: a string that is not a well-formed structured encoding (it is not in braces,
  or it does not parse, or the parsed value has no \<open>text\<close> member) decodes to itself
  as text, with no images.
\<close>

theorem decode_not_structured:
  "\<not> well_formed_structured s \<Longrightarrow>
   parseMessageContent s = \<lparr>mc_text = JStr s, mc_images = []\<rparr>"
  by (auto simp: parseMessageContent_def well_formed_structured_def plain_content_def
      split: option.splits property.splits)

theorem decode_not_structured_witness:
  \<open>\<not> well_formed_structured (js ''{"images":["x"]}'') \<and>
   parseMessageContent (js ''{"images":["x"]}'') =
     \<lparr>mc_text = JStr (js ''{"images":["x"]}''), mc_images = []\<rparr>\<close>
proof -
  have h: \<open>\<not> well_formed_structured (js ''{"images":["x"]}'')\<close>
    by code_simp
  from h decode_not_structured [OF h] show ?thesis
    by simp
qed

section \<open>Properties of image validation\<close>

text \<open>
  Claim C10: a file is accepted exactly when its MIME type starts with \<open>image/\<close> and
  its size is at most 4 * 1024 * 1024 bytes; a file that is not accepted is turned down
  with an error before anything is compressed, converted or handed on.
\<close>

theorem isValidImageFile_iff:
  "(isValidImageFile f \<longleftrightarrow>
      startsWith (file_type f) (js ''image/'') \<and> file_size f \<le> 4 * 1024 * 1024) \<and>
   (\<not> isValidImageFile f \<longrightarrow>
      uploaded (processFile f compressed dataUrl) = None \<and>
      shown_error (processFile f compressed dataUrl) \<noteq> None)"
  by (auto simp: isValidImageFile_def MAX_SIZE_def processFile_def)

theorem isValidImageFile_iff_witness:
  "\<not> isValidImageFile \<lparr>file_type = js ''image/png'', file_size = 4194305\<rparr> \<and>
   isValidImageFile \<lparr>file_type = js ''image/png'', file_size = 4194304\<rparr> \<and>
   uploaded (processFile \<lparr>file_type = js ''image/png'', file_size = 4194305\<rparr>
               (Some \<lparr>file_type = js ''image/jpeg'', file_size = 1000\<rparr>)
               (Some (js ''data:image/jpeg;base64,AAAA''))) = None"
proof -
  have st: "startsWith (js ''image/png'') (js ''image/'')"
    by code_simp
  from st
    isValidImageFile_iff [of "\<lparr>file_type = js ''image/png'', file_size = 4194305\<rparr>"
      "Some \<lparr>file_type = js ''image/jpeg'', file_size = 1000\<rparr>"
      "Some (js ''data:image/jpeg;base64,AAAA'')"]
    isValidImageFile_iff [of "\<lparr>file_type = js ''image/png'', file_size = 4194304\<rparr>"]
  show ?thesis
    by simp
qed


section \<open>Properties of the provider clients\<close>

lemma slice_last_length: "length (slice_last n xs) \<le> n"
  by (simp add: slice_last_def)

lemma slice_last_suffix: "take (length xs - n) xs @ slice_last n xs = xs"
  by (simp add: slice_last_def)

lemma slice_but_last_length: "length (slice_but_last xs) = length xs - 1"
  by (simp add: slice_but_last_def)

text \<open>The local client sends at most ten messages, with or without images.\<close>

lemma ollama_api_messages_capped:
  assumes "ollama_api_messages model messages imageData = Inr apiMessages"
  shows "length apiMessages \<le> 10"
proof -
  have n: "length (slice_last 10 messages) \<le> 10"
    by (rule slice_last_length)
  show ?thesis
  proof (cases "modelSupportsVision model \<and> imageData \<noteq> None \<and> length (the imageData) > 0")
    case True
    with assms n show ?thesis
      by (auto simp: ollama_api_messages_def Let_def last_element_def slice_but_last_length
          split: if_splits)
  next
    case False
    with assms n show ?thesis
      by (auto simp: ollama_api_messages_def Let_def)
  qed
qed

text \<open>The remote client sends at most ten messages when images are attached.\<close>

lemma groq_api_messages_vision_capped:
  assumes "imageData \<noteq> None" and "length (the imageData) > 0"
    and "groq_api_messages messages imageData = Inr apiMessages"
  shows "length apiMessages \<le> 10"
proof -
  have n: "length (slice_last 10 messages) \<le> 10"
    by (rule slice_last_length)
  with assms show ?thesis
    by (auto simp: groq_api_messages_def Let_def last_element_def slice_but_last_length
        split: if_splits)
qed

text \<open>Without images the remote client maps the whole history, whatever its length.\<close>

lemma groq_api_messages_text_only:
  "groq_api_messages messages None =
     Inr (map (\<lambda>msg. \<lparr>api_role = m_role msg, api_content = Text (m_content msg)\<rparr>) messages)"
  by (simp add: groq_api_messages_def)

text \<open>
  Claim C3 holds for the local client and for the remote client with images, but not for
  the remote client without images: called with a history of eleven messages and no
  images, \<open>getGroqCompletion\<close> puts all eleven in the request.
\<close>

theorem groq_text_only_sends_whole_history:
  "map_option (\<lambda>r. length (req_messages r))
     (fst (getGroqCompletion env0 history11 None (Ok (Some (js ''Hi there''))))) = Some 11"
  by (simp add: getGroqCompletion_def groq_api_messages_def history11_def falsy_string_def
      log_throws_def env0_def stored_def js_def)

text \<open>
  When the requested model is not installed and some model is, the call goes on exactly
  as if the first installed model had been requested.
\<close>

lemma ollama_model_substituted:
  assumes "m \<notin> set availableModels" and "availableModels \<noteq> []"
  shows "check_model (TagsOk (Some availableModels)) m = Inr (availableModels ! 0)"
    and "getOllamaCompletion messages (Some m) imageData (TagsOk (Some availableModels)) r =
         getOllamaCompletion messages (Some (availableModels ! 0)) imageData (TagsOk (Some availableModels)) r"
  using assms by (auto simp: getOllamaCompletion_def check_model_def check_model_try_def)

text \<open>
  Claim C7, at the input where it fails: with no model installed the model check raises
  \<open>No models available in Ollama\<close>, but the \<open>catch\<close> around the check replaces it, and
  the caller gets the error of a server that cannot be reached.
\<close>

theorem ollama_no_models_error_replaced:
  "check_model_try (TagsOk (Some [])) (js ''llama3'') = Inl (Error (js ''No models available in Ollama'')) \<and>
   getOllamaCompletion history11 (Some (js ''llama3'')) None (TagsOk (Some [])) (Ok (Some (js ''Hi there'')))
     = (None, Inl server_not_available) \<and>
   getOllamaCompletion history11 (Some (js ''llama3'')) None TagsRejects (Ok (Some (js ''Hi there'')))
     = (None, Inl server_not_available) \<and>
   server_not_available \<noteq> Error (js ''No models available in Ollama'')"
proof -
  have "server_not_available \<noteq> Error (js ''No models available in Ollama'')"
    by code_simp
  then show ?thesis
    by (simp add: getOllamaCompletion_def check_model_def check_model_try_def)
qed

section \<open>Properties of the session pipeline\<close>

text \<open>
  Claim C4: an insert event whose identifier is already that of an entry of the sequence
  changes nothing; any other event appends its record once, and delivering the same
  event again changes nothing more.
\<close>

theorem on_insert_idempotent:
  "((\<exists>msg \<in> set (s_messages s). m_id (snd msg) = m_id newMessage) \<longrightarrow> on_insert s newMessage = s) \<and>
   (\<not> (\<exists>msg \<in> set (s_messages s). m_id (snd msg) = m_id newMessage) \<longrightarrow>
      s_messages (on_insert s newMessage) = s_messages s @ [(s_next_ref s, newMessage)]) \<and>
   on_insert (on_insert s newMessage) newMessage = on_insert s newMessage"
  by (force simp: on_insert_def image_iff)

theorem on_insert_idempotent_witness:
  "(\<exists>msg \<in> set (s_messages (session0\<lparr>s_messages := [(0, stored (js ''m1'') User long_text)], s_next_ref := 1\<rparr>)).
      m_id (snd msg) = m_id (stored (js ''m1'') Assistant (js ''again''))) \<and>
   on_insert (session0\<lparr>s_messages := [(0, stored (js ''m1'') User long_text)], s_next_ref := 1\<rparr>)
      (stored (js ''m1'') Assistant (js ''again''))
     = session0\<lparr>s_messages := [(0, stored (js ''m1'') User long_text)], s_next_ref := 1\<rparr> \<and>
   \<not> (\<exists>msg \<in> set (s_messages session0). m_id (snd msg) = m_id (stored (js ''m1'') User long_text)) \<and>
   s_messages (on_insert session0 (stored (js ''m1'') User long_text))
     = [(0, stored (js ''m1'') User long_text)]"
proof -
  have h1: "\<exists>msg \<in> set (s_messages (session0\<lparr>s_messages := [(0, stored (js ''m1'') User long_text)], s_next_ref := 1\<rparr>)).
      m_id (snd msg) = m_id (stored (js ''m1'') Assistant (js ''again''))"
    by (simp add: stored_def)
  have h2: "\<not> (\<exists>msg \<in> set (s_messages session0). m_id (snd msg) = m_id (stored (js ''m1'') User long_text))"
    by (simp add: session0_def)
  from h1 h2
    on_insert_idempotent [of "session0\<lparr>s_messages := [(0, stored (js ''m1'') User long_text)], s_next_ref := 1\<rparr>"
      "stored (js ''m1'') Assistant (js ''again'')"]
    on_insert_idempotent [of session0 "stored (js ''m1'') User long_text"]
  show ?thesis
    by (simp add: session0_def)
qed

text \<open>
  Claim C5: when the write of the user message fails, the only call made is that write
  (no provider is called), the sequence is the old one followed by the placeholder of
  the user message (no thinking placeholder, no rollback), the error is shown and the
  Send is over.
\<close>

theorem send_user_persist_fails:
  assumes "\<not> returns_early p content images"
    and "rep_error (user_insert w) = Some err"
  shows "snd (sendMessage p s content images w) = [InsertMessage (chatId p) User (encode content images)] \<and>
         s_messages (fst (sendMessage p s content images w)) =
           s_messages s @ [(s_next_ref s, tempUserMessage p content images w)] \<and>
         s_error (fst (sendMessage p s content images w)) =
           Some (js ''Error sending message: '' @ message_of err) \<and>
         s_sending (fst (sendMessage p s content images w)) = False"
  using assms
  by (simp add: sendMessage_def Let_def send_failed_def storeMessageInDB_def optimistic_def)

theorem send_user_persist_fails_witness:
  "\<not> returns_early props0 long_text None \<and>
   rep_error (user_insert world_fail) = Some (DbError (js ''connection lost'')) \<and>
   snd (sendMessage props0 session0 long_text None world_fail) = [InsertMessage (js ''chat-1'') User long_text] \<and>
   s_messages (fst (sendMessage props0 session0 long_text None world_fail)) =
     [(0, tempUserMessage props0 long_text None world_fail)]"
proof -
  have h1: "\<not> returns_early props0 long_text None"
    by code_simp
  have h2: "rep_error (user_insert world_fail) = Some (DbError (js ''connection lost''))"
    by (simp add: world_fail_def)
  from send_user_persist_fails [OF h1 h2, of session0] h1 h2 show ?thesis
    by (simp add: props0_def session0_def encode_def)
qed

text \<open>
  \<open>sendMessage\<close> does not read \<open>sending\<close>: called directly while a Send is in flight,
  it writes the user message and calls the provider like any other Send.
\<close>

lemma sendMessage_has_no_guard:
  "snd (sendMessage props0 (session0\<lparr>s_sending := True\<rparr>) long_text None world0) =
     snd (sendMessage props0 session0 long_text None world0) \<and>
   take 1 (snd (sendMessage props0 (session0\<lparr>s_sending := True\<rparr>) long_text None world0)) =
     [InsertMessage (js ''chat-1'') User long_text]"
  by code_simp

text \<open>
  Claim C6: while a Send is in flight the message input is disabled, and a Send request
  made through it does nothing: no call is made, the state and the draft stay as they
  are. (The guard is the input's; \<open>sendMessage\<close> itself does not read \<open>sending\<close>.)
\<close>

theorem send_rejected_while_sending:
  "s_sending s \<Longrightarrow> handleSend p s inp w = (s, inp, [])"
  by (simp add: handleSend_def disabled_def)

theorem send_rejected_while_sending_witness:
  "s_sending (session0\<lparr>s_sending := True\<rparr>) \<and>
   handleSend props0 (session0\<lparr>s_sending := True\<rparr>) \<lparr>draft = long_text, queued = []\<rparr> world0
     = (session0\<lparr>s_sending := True\<rparr>, \<lparr>draft = long_text, queued = []\<rparr>, [])"
  using send_rejected_while_sending [of "session0\<lparr>s_sending := True\<rparr>" props0
      "\<lparr>draft = long_text, queued = []\<rparr>" world0]
  by simp

text \<open>
  Claim C8: in online mode with the availability flag false, the mode switch makes no
  call, shows an error and leaves the mode online; nothing but the error changes.
\<close>

theorem toggle_to_offline_rejected:
  assumes "s_mode s = Online" and "\<not> s_ollamaAvailable s"
  shows "toggleMode p s =
           (s\<lparr>s_error := Some (js ''Ollama is not running. Please start Ollama before switching to offline mode.'')\<rparr>, []) \<and>
         s_mode (fst (toggleMode p s)) = Online"
  using assms by (simp add: toggleMode_def)

theorem toggle_to_offline_rejected_witness:
  "s_mode session0 = Online \<and> \<not> s_ollamaAvailable session0 \<and>
   snd (toggleMode props0 session0) = [] \<and> s_mode (fst (toggleMode props0 session0)) = Online \<and>
   s_error (fst (toggleMode props0 session0)) \<noteq> None"
proof -
  have h1: "s_mode session0 = Online" and h2: "\<not> s_ollamaAvailable session0"
    by (simp_all add: session0_def)
  from toggle_to_offline_rejected [OF h1 h2, of props0] h1 h2 show ?thesis
    by simp
qed







end
